theory Spec2Isabelle
  imports Main "HOL-Library.AList" "HOL-Library.List_Lexorder" "HOL-Library.Sublist"
begin

section \<open>Python values, dictionaries and errors\<close>

text \<open>
  The values a host record can hold after it has been read from JSON: \<open>None\<close>, booleans,
  integers, strings, lists and dictionaries (floating-point numbers are left out of the
  model). A Python \<open>dict\<close> is an association list in insertion order: \<open>d.get(k)\<close> is
  \<open>map_of d k\<close>, \<open>d[k] = v\<close> is \<open>AList.update k v d\<close> (replace in place, or append).
\<close>

datatype pyval =
    PNone
  | PBool bool
  | PInt int
  | PStr string
  | PList "pyval list"
  | PDict "(string \<times> pyval) list"

type_synonym pydict = "(string \<times> pyval) list"

datatype error = KeyError | IndexError | TypeError | ValueError | OverflowError

text \<open>\<open>d[k]\<close>: raises \<open>KeyError\<close> when the key is absent.\<close>

definition dict_item :: "('k \<times> 'v) list \<Rightarrow> 'k \<Rightarrow> error + 'v" where
  "dict_item d k = (case map_of d k of None \<Rightarrow> Inl KeyError | Some v \<Rightarrow> Inr v)"

text \<open>\<open>d.get(k, default)\<close>.\<close>

definition dict_get :: "('k \<times> 'v) list \<Rightarrow> 'k \<Rightarrow> 'v \<Rightarrow> 'v" where
  "dict_get d k dflt = (case map_of d k of None \<Rightarrow> dflt | Some v \<Rightarrow> v)"

text \<open>\<open>d.update(other)\<close>: the items of \<open>other\<close> are stored one by one, in order.\<close>

definition dict_update :: "('k \<times> 'v) list \<Rightarrow> ('k \<times> 'v) list \<Rightarrow> ('k \<times> 'v) list" where
  "dict_update d other = foldl (\<lambda>acc (k, v). AList.update k v acc) d other"

text \<open>\<open>xs[i]\<close> for a non-negative index: raises \<open>IndexError\<close> out of range.\<close>

definition list_item :: "'a list \<Rightarrow> nat \<Rightarrow> error + 'a" where
  "list_item xs i = (if i < length xs then Inr (xs ! i) else Inl IndexError)"

text \<open>Truthiness of a value, as \<open>if v:\<close> tests it.\<close>

fun py_truthy :: "pyval \<Rightarrow> bool" where
  "py_truthy PNone = False"
| "py_truthy (PBool b) = b"
| "py_truthy (PInt i) = (i \<noteq> 0)"
| "py_truthy (PStr s) = (s \<noteq> [])"
| "py_truthy (PList xs) = (xs \<noteq> [])"
| "py_truthy (PDict d) = (d \<noteq> [])"

text \<open>\<open>sep.join(parts)\<close>.\<close>

fun join :: "string \<Rightarrow> string list \<Rightarrow> string" where
  "join sep [] = []"
| "join sep [p] = p"
| "join sep (p # q # ps) = p @ sep @ join sep (q # ps)"

text \<open>\<open>chr(ord('A') + i)\<close>.\<close>

definition letter :: "nat \<Rightarrow> char" where
  "letter i = char_of (of_char CHR ''A'' + i :: nat)"

subsection \<open>The builtin \<open>int()\<close>\<close>

text \<open>
  \<open>int(v)\<close> is a builtin of the language, not code of the repository: the classifier takes
  it as a parameter \<open>to_int :: pyval \<Rightarrow> error + int\<close> (\<open>Inl\<close> when the conversion raises).
  \<open>py_int\<close> is the instance used to evaluate the classifier on concrete records: \<open>None\<close>,
  lists and dictionaries raise \<open>TypeError\<close>, a boolean is 0 or 1, an integer is itself, and
  an ASCII string is read as a decimal literal (surrounding whitespace, an optional sign,
  digits with single underscores between them), raising \<open>ValueError\<close> otherwise.
\<close>

definition is_space :: "char \<Rightarrow> bool" where
  "is_space c = (c \<in> set [CHR '' '', CHR 0x09, CHR 0x0A, CHR 0x0B, CHR 0x0C, CHR 0x0D,
                          CHR 0x1C, CHR 0x1D, CHR 0x1E, CHR 0x1F])"

definition strip :: "string \<Rightarrow> string" where
  "strip s = rev (dropWhile is_space (rev (dropWhile is_space s)))"

definition is_digit :: "char \<Rightarrow> bool" where
  "is_digit c = ((of_char CHR ''0'' :: nat) \<le> of_char c \<and> (of_char c :: nat) \<le> of_char CHR ''9'')"

definition digit_val :: "char \<Rightarrow> nat" where
  "digit_val c = of_char c - of_char CHR ''0''"

text \<open>Digits with single underscores between them; the accumulator is the value so far.\<close>

fun parse_digits :: "nat \<Rightarrow> string \<Rightarrow> nat option" where
  "parse_digits acc [] = None"
| "parse_digits acc [c] = (if is_digit c then Some (10 * acc + digit_val c) else None)"
| "parse_digits acc (c # d # cs) =
     (if \<not> is_digit c then None
      else if d = CHR ''_'' then parse_digits (10 * acc + digit_val c) cs
      else parse_digits (10 * acc + digit_val c) (d # cs))"

definition parse_int :: "string \<Rightarrow> int option" where
  "parse_int s =
     (case strip s of
        [] \<Rightarrow> None
      | c # cs \<Rightarrow>
          if c = CHR ''-'' then map_option (\<lambda>n. - int n) (parse_digits 0 cs)
          else if c = CHR ''+'' then map_option int (parse_digits 0 cs)
          else map_option int (parse_digits 0 (c # cs)))"

fun py_int :: "pyval \<Rightarrow> error + int" where
  "py_int PNone = Inl TypeError"
| "py_int (PBool b) = Inr (if b then 1 else 0)"
| "py_int (PInt i) = Inr i"
| "py_int (PStr s) = (case parse_int s of None \<Rightarrow> Inl ValueError | Some i \<Rightarrow> Inr i)"
| "py_int (PList xs) = Inl TypeError"
| "py_int (PDict d) = Inl TypeError"

section \<open>The classifier (\<open>core/classifier.py\<close>)\<close>

definition CRITERIA_KEYS :: "string list" where
  "CRITERIA_KEYS =
     [''Recent_CPU_decrease_criterion'',
      ''Recent_net_traffic_decrease_criterion'',
      ''Sustained_Low_CPU_criterion'',
      ''Excessively_constant_RAM_criterion'',
      ''Daily_CPU_profile_lost_criterion'']"

text \<open>The Spanish fragments, as UTF-8 bytes.\<close>

definition CRITERIA_DESCRIPTIONS :: "string list" where
  "CRITERIA_DESCRIPTIONS =
     [''Detectada una bajada repentina en el uso de CPU'',
      ''Detectada una ca'' @ [CHR 0xC3, CHR 0xAD] @ ''da brusca en el tr''
        @ [CHR 0xC3, CHR 0xA1] @ ''fico de red reciente'',
      ''El uso de CPU se mantiene demasiado bajo durante un tiempo prolongado'',
      ''El uso de RAM permanece anormalmente constante, sin variaciones'',
      ''El patr'' @ [CHR 0xC3, CHR 0xB3] @ ''n diario esperado de uso de CPU no se est''
        @ [CHR 0xC3, CHR 0xA1] @ '' cumpliendo'']"

definition ALIAS_BY_CODE :: "(string \<times> string) list" where
  "ALIAS_BY_CODE =
     [(''5'', ''Coloso''),
      (''4A'', ''Nemesis''), (''4B'', ''Clicker''), (''4C'', ''Revenant''),
      (''4D'', ''Ghoul''), (''4E'', ''Gael''),
      (''3A'', ''Solomon''), (''3B'', ''Bud''), (''3C'', ''Tarman''), (''3D'', ''Ben''),
      (''3E'', ''Fido''), (''3F'', ''Bloater''), (''3G'', ''Shambler''),
      (''3H'', ''Stalker''), (''3I'', ''Zeus''), (''3J'', ''Wights''),
      (''2A'', ''Mummy''), (''2B'', ''Wraith''), (''2C'', ''Vampire''),
      (''2D'', ''Banshee''), (''2E'', ''Phantom''), (''2F'', ''Specter''),
      (''2G'', ''Shade''), (''2H'', ''Poltergeist''), (''2I'', ''Spirit''),
      (''2J'', ''Apparition''),
      (''1A'', ''Zombie''), (''1B'', ''Walker''), (''1C'', ''Crawler''),
      (''1D'', ''Lurker''), (''1E'', ''Sleeper''),
      (''0'', ''No Zombie Detected'')]"

definition FOUR_OF_FIVE_MISSING_TO_CODE :: "(nat \<times> string) list" where
  "FOUR_OF_FIVE_MISSING_TO_CODE =
     [(0, ''4A''), (1, ''4B''), (2, ''4C''), (3, ''4D''), (4, ''4E'')]"

definition THREE_COMBOS :: "nat list list" where
  "THREE_COMBOS =
     [[0, 1, 2], [0, 1, 3], [0, 1, 4], [0, 2, 3], [0, 2, 4],
      [0, 3, 4], [1, 2, 3], [1, 2, 4], [1, 3, 4], [2, 3, 4]]"

text \<open>A \<open>frozenset\<close> key is a HOL set; the comprehension stores the items in list order.\<close>

definition THREE_SET_TO_CODE :: "(nat set \<times> string) list" where
  "THREE_SET_TO_CODE =
     dict_update [] (map (\<lambda>(i, c). (set c, ''3'' @ [letter i])) (enumerate 0 THREE_COMBOS))"

definition TWO_COMBOS :: "nat list list" where
  "TWO_COMBOS =
     [[0, 1], [0, 2], [0, 3], [0, 4], [1, 2],
      [1, 3], [1, 4], [2, 3], [2, 4], [3, 4]]"

definition TWO_SET_TO_CODE :: "(nat set \<times> string) list" where
  "TWO_SET_TO_CODE =
     dict_update [] (map (\<lambda>(i, c). (set c, ''2'' @ [letter i])) (enumerate 0 TWO_COMBOS))"

definition ONE_INDEX_TO_CODE :: "(nat \<times> string) list" where
  "ONE_INDEX_TO_CODE =
     [(0, ''1A''), (1, ''1B''), (2, ''1C''), (3, ''1D''), (4, ''1E'')]"

text \<open>
  \<open>_active_indices\<close>: one pass of the loop body. \<open>host.get(key, 0)\<close> is converted with
  \<open>int\<close>; an exception of the conversion is swallowed by the \<open>except Exception: pass\<close>.
\<close>

definition active_step :: "(pyval \<Rightarrow> error + int) \<Rightarrow> pydict \<Rightarrow> nat list \<Rightarrow> nat \<times> string \<Rightarrow> nat list" where
  "active_step to_int host active ik =
     (case to_int (dict_get host (snd ik) (PInt 0)) of
        Inl e \<Rightarrow> active
      | Inr n \<Rightarrow> if n = 1 then active @ [fst ik] else active)"

definition active_indices :: "(pyval \<Rightarrow> error + int) \<Rightarrow> pydict \<Rightarrow> nat list" where
  "active_indices to_int host = foldl (active_step to_int host) [] (enumerate 0 CRITERIA_KEYS)"

text \<open>
  \<open>_code_for_active\<close>. For four indices, \<open>({0,1,2,3,4} - set(active_idxs)).pop()\<close> takes an
  element of the difference: the smallest one in CPython, and the only one when the four
  indices are distinct and below 5. The difference is never empty for a list of length 4.
\<close>

definition code_for_active :: "nat list \<Rightarrow> error + string" where
  "code_for_active active_idxs =
     (let n = length active_idxs in
      if n = 5 then Inr ''5''
      else if n = 4 then
        (let missing = hd (filter (\<lambda>i. i \<notin> set active_idxs) [0, 1, 2, 3, 4])
         in dict_item FOUR_OF_FIVE_MISSING_TO_CODE missing)
      else if n = 3 then dict_item THREE_SET_TO_CODE (set active_idxs)
      else if n = 2 then dict_item TWO_SET_TO_CODE (set active_idxs)
      else if n = 1 then
        (case list_item active_idxs 0 of
           Inl e \<Rightarrow> Inl e
         | Inr i \<Rightarrow> dict_item ONE_INDEX_TO_CODE i)
      else Inr ''0'')"

definition alias_for_code :: "string \<Rightarrow> string" where
  "alias_for_code code = dict_get ALIAS_BY_CODE code code"

fun items_at :: "'a list \<Rightarrow> nat list \<Rightarrow> error + 'a list" where
  "items_at xs [] = Inr []"
| "items_at xs (i # is) =
     (case list_item xs i of
        Inl e \<Rightarrow> Inl e
      | Inr x \<Rightarrow> (case items_at xs is of Inl e \<Rightarrow> Inl e | Inr ys \<Rightarrow> Inr (x # ys)))"

definition description_for_active :: "nat list \<Rightarrow> error + string" where
  "description_for_active active_idxs =
     (case items_at CRITERIA_DESCRIPTIONS active_idxs of
        Inl e \<Rightarrow> Inl e
      | Inr parts \<Rightarrow>
          Inr (if parts \<noteq> [] then join '', '' parts else ''Sin criterios de zombie activos''))"

definition classify_host :: "(pyval \<Rightarrow> error + int) \<Rightarrow> pydict \<Rightarrow> error + (string \<times> string \<times> string)" where
  "classify_host to_int host =
     (let active = active_indices to_int host in
      case code_for_active active of
        Inl e \<Rightarrow> Inl e
      | Inr code \<Rightarrow>
          (let alias = alias_for_code code in
           case description_for_active active of
             Inl e \<Rightarrow> Inl e
           | Inr description \<Rightarrow> Inr (code, alias, description)))"

text \<open>
  \<open>get_criteria_combinations\<close>: the dictionary is filled in the order of the source. The
  indices of the two loops come from the constant tables, all below 5, so
  \<open>CRITERIA_KEYS[i]\<close> is in range.
\<close>

definition keys_at :: "nat set \<Rightarrow> string list" where
  "keys_at idxs = map (\<lambda>i. CRITERIA_KEYS ! i) (sorted_list_of_set idxs)"

definition get_criteria_combinations :: "(string \<times> string list) list" where
  "get_criteria_combinations =
     (let combinations = [];
          combinations = dict_update combinations
            [(''1A'', [''Recent_CPU_decrease_criterion'']),
             (''1B'', [''Recent_net_traffic_decrease_criterion'']),
             (''1C'', [''Sustained_Low_CPU_criterion'']),
             (''1D'', [''Excessively_constant_RAM_criterion'']),
             (''1E'', [''Daily_CPU_profile_lost_criterion'']),
             (''2A'', [''Recent_CPU_decrease_criterion'', ''Recent_net_traffic_decrease_criterion'']),
             (''2B'', [''Recent_CPU_decrease_criterion'', ''Sustained_Low_CPU_criterion'']),
             (''2C'', [''Recent_CPU_decrease_criterion'', ''Excessively_constant_RAM_criterion'']),
             (''2D'', [''Recent_CPU_decrease_criterion'', ''Daily_CPU_profile_lost_criterion'']),
             (''2E'', [''Recent_net_traffic_decrease_criterion'', ''Sustained_Low_CPU_criterion'']),
             (''2F'', [''Recent_net_traffic_decrease_criterion'', ''Excessively_constant_RAM_criterion'']),
             (''2G'', [''Recent_net_traffic_decrease_criterion'', ''Daily_CPU_profile_lost_criterion'']),
             (''2H'', [''Sustained_Low_CPU_criterion'', ''Excessively_constant_RAM_criterion'']),
             (''2I'', [''Sustained_Low_CPU_criterion'', ''Daily_CPU_profile_lost_criterion'']),
             (''2J'', [''Excessively_constant_RAM_criterion'', ''Daily_CPU_profile_lost_criterion''])];
          combinations = foldl (\<lambda>acc (combo_tuple, code). AList.update code (keys_at combo_tuple) acc)
            combinations THREE_SET_TO_CODE;
          combinations = foldl (\<lambda>acc (missing_idx, code).
              AList.update code (keys_at ({0, 1, 2, 3, 4} - {missing_idx})) acc)
            combinations FOUR_OF_FIVE_MISSING_TO_CODE;
          combinations = AList.update ''5'' CRITERIA_KEYS combinations;
          combinations = AList.update ''0'' [] combinations
      in combinations)"

subsection \<open>The canonical letter assignment, as the specification words it\<close>

text \<open>
  The subsets of \<open>{0,..,4}\<close> are the ascending index tuples, that is the sublists of
  \<open>[0,1,2,3,4]\<close>; \<open>canonical k\<close> lists those of size \<open>k\<close> in lexicographic order. The code
  of a tuple is \<open>0\<close> or \<open>5\<close> for the empty and the full tuple, the size followed by the
  letter of the single index (size 1), of the single missing index (size 4), or of the
  tuple's position in the lexicographic listing (sizes 2 and 3).
\<close>

definition all_subsets :: "nat list list" where
  "all_subsets = subseqs [0, 1, 2, 3, 4]"

definition canonical :: "nat \<Rightarrow> nat list list" where
  "canonical k = sort (filter (\<lambda>ys. length ys = k) all_subsets)"

definition position :: "'a \<Rightarrow> 'a list \<Rightarrow> nat" where
  "position x xs = length (takeWhile (\<lambda>y. y \<noteq> x) xs)"

definition size_digit :: "nat \<Rightarrow> char" where
  "size_digit k = char_of (of_char CHR ''0'' + k :: nat)"

definition canonical_code :: "nat list \<Rightarrow> string" where
  "canonical_code S =
     (let k = length S in
      if k = 0 then ''0''
      else if k = 5 then ''5''
      else if k = 1 then [size_digit 1, letter (hd S)]
      else if k = 4 then [size_digit 4, letter (hd (filter (\<lambda>i. i \<notin> set S) [0, 1, 2, 3, 4]))]
      else [size_digit k, letter (position S (canonical k))])"

text \<open>Encoding a subset given as a set: the classifier's list of it is the ascending one.\<close>

definition encode :: "nat set \<Rightarrow> error + string" where
  "encode S = code_for_active (sorted_list_of_set S)"

text \<open>Decoding a code: the entry of \<open>get_criteria_combinations\<close>.\<close>

definition decode :: "string \<Rightarrow> string list option" where
  "decode code = map_of get_criteria_combinations code"

text \<open>The codes the classifier gives to the 32 subsets.\<close>

definition all_codes :: "string list" where
  "all_codes =
     concat (map (\<lambda>S. case code_for_active S of Inl e \<Rightarrow> [] | Inr code \<Rightarrow> [code]) all_subsets)"

section \<open>The lifecycle tracker (\<open>core/zombie_tracker.py\<close>)\<close>

text \<open>
  A naive \<open>datetime\<close> is the number of microseconds since \<open>0001-01-01T00:00:00\<close>;
  \<open>isoformat\<close> and \<open>fromisoformat\<close> are inverse on the timestamps the tracker writes, so
  the files hold the time itself. \<open>datetime.now()\<close> is the argument \<open>now\<close> of every
  operation that reads the clock.
\<close>

type_synonym time = int

definition DATETIME_MAX :: time where
  "DATETIME_MAX = 3652059 * 86400000000 - 1"

text \<open>\<open>timedelta(days=d)\<close> raises \<open>OverflowError\<close> beyond 999999999 days.\<close>

definition timedelta_days :: "int \<Rightarrow> error + int" where
  "timedelta_days d = (if \<bar>d\<bar> \<le> 999999999 then Inr (d * 86400000000) else Inl OverflowError)"

text \<open>\<open>t - delta\<close> raises \<open>OverflowError\<close> when the date leaves the years 1 to 9999.\<close>

definition datetime_sub :: "time \<Rightarrow> int \<Rightarrow> error + time" where
  "datetime_sub t delta =
     (if 0 \<le> t - delta \<and> t - delta \<le> DATETIME_MAX then Inr (t - delta) else Inl OverflowError)"

text \<open>
  The dictionaries the tracker builds have fixed keys and are records here; the field
  names carry a prefix (\<open>st_\<close>, \<open>rp_\<close>, \<open>sn_\<close>, \<open>he_\<close>, \<open>ke_\<close>) before the key of the source.
\<close>

record stats =
  st_total_zombies :: nat
  st_new_zombies :: nat
  st_persisting_zombies :: nat
  st_killed_zombies :: nat

record report =
  rp_new_zombies :: "pyval list"
  rp_persisting_zombies :: "pyval list"
  rp_killed_zombies :: "pyval list"
  rp_stats :: stats

record snapshot =
  sn_timestamp :: time
  sn_zombies :: "pydict list"
  sn_zombie_ids :: "pyval list"
  sn_stats :: stats

record history_entry =
  he_timestamp :: time
  he_zombie_count :: nat
  he_zombies :: "pydict list"

record killed_entry =
  ke_dynatrace_host_id :: pyval
  ke_hostname :: pyval
  ke_criterion_type :: pyval
  ke_criterion_alias :: pyval
  ke_killed_at :: time
  ke_last_detection :: pydict

text \<open>
  The three files of the data directory. \<open>None\<close> is a file that is missing or does not
  decode (\<open>FileNotFoundError\<close>, \<open>JSONDecodeError\<close>); a file that decodes has the layout the
  tracker writes. What is written is read back unchanged: the values of the model
  survive \<open>json.dump\<close> and \<open>json.load\<close>.
\<close>

record tracker =
  current_zombies_file :: "snapshot option"
  zombie_history_file :: "history_entry list option"
  killed_zombies_file :: "killed_entry list option"

text \<open>
  A Python \<open>set\<close> is a duplicate-free list. The order in which Python iterates a set is
  not fixed by the language; the model keeps the order of first insertion, and the
  statements below speak of the elements only. Identifiers are compared as values of
  the model; they are strings in the annotations of the source (Python would also take
  \<open>True\<close> and 1 for the same element). Lists and dictionaries are not hashable: putting
  one in a set raises \<open>TypeError\<close>.
\<close>

fun hashable :: "pyval \<Rightarrow> bool" where
  "hashable (PList xs) = False"
| "hashable (PDict d) = False"
| "hashable v = True"

definition set_add :: "'a list \<Rightarrow> 'a \<Rightarrow> 'a list" where
  "set_add s x = (if x \<in> set s then s else s @ [x])"

definition set_difference :: "'a list \<Rightarrow> 'a list \<Rightarrow> 'a list" where
  "set_difference a b = filter (\<lambda>x. x \<notin> set b) a"

definition set_intersection :: "'a list \<Rightarrow> 'a list \<Rightarrow> 'a list" where
  "set_intersection a b = filter (\<lambda>x. x \<in> set b) a"

text \<open>\<open>{z["dynatrace_host_id"] for z in zs}\<close>, the set built so far being \<open>s\<close>.\<close>

fun id_set_from :: "pyval list \<Rightarrow> pydict list \<Rightarrow> error + pyval list" where
  "id_set_from s [] = Inr s"
| "id_set_from s (z # zs) =
     (case dict_item z ''dynatrace_host_id'' of
        Inl e \<Rightarrow> Inl e
      | Inr v \<Rightarrow> if hashable v then id_set_from (set_add s v) zs else Inl TypeError)"

definition id_set :: "pydict list \<Rightarrow> error + pyval list" where
  "id_set zs = id_set_from [] zs"

definition load_current_zombies :: "tracker \<Rightarrow> pydict list" where
  "load_current_zombies tr =
     (case current_zombies_file tr of None \<Rightarrow> [] | Some data \<Rightarrow> sn_zombies data)"

definition update_zombie_history :: "pydict list \<Rightarrow> time \<Rightarrow> tracker \<Rightarrow> tracker" where
  "update_zombie_history zombies t tr =
     (let history = (case zombie_history_file tr of None \<Rightarrow> [] | Some h \<Rightarrow> h);
          history_entry = \<lparr>he_timestamp = t, he_zombie_count = length zombies, he_zombies = zombies\<rparr>;
          history = history @ [history_entry];
          history = (if length history > 1000 then drop (length history - 1000) history else history)
      in tr\<lparr>zombie_history_file := Some history\<rparr>)"

text \<open>The \<open>killed_entry\<close> dictionary of \<open>_track_killed_zombies\<close> for one previous record.\<close>

definition killed_entry_of :: "time \<Rightarrow> pydict \<Rightarrow> pyval \<Rightarrow> killed_entry" where
  "killed_entry_of t zombie zid =
     \<lparr>ke_dynatrace_host_id = zid,
      ke_hostname = dict_get zombie ''hostname'' (PStr ''unknown''),
      ke_criterion_type = dict_get zombie ''criterion_type'' (PStr ''unknown''),
      ke_criterion_alias = dict_get zombie ''criterion_alias'' (PStr ''unknown''),
      ke_killed_at = t,
      ke_last_detection = zombie\<rparr>"

text \<open>The loop of \<open>_track_killed_zombies\<close> over the previous records, appending to \<open>killed\<close>.\<close>

fun track_loop :: "killed_entry list \<Rightarrow> pyval list \<Rightarrow> time \<Rightarrow> pydict list \<Rightarrow> error + killed_entry list" where
  "track_loop killed killed_ids t [] = Inr killed"
| "track_loop killed killed_ids t (zombie # rest) =
     (case dict_item zombie ''dynatrace_host_id'' of
        Inl e \<Rightarrow> Inl e
      | Inr zid \<Rightarrow>
          if zid \<in> set killed_ids
          then track_loop (killed @ [killed_entry_of t zombie zid]) killed_ids t rest
          else track_loop killed killed_ids t rest)"

definition track_killed_zombies :: "pyval list \<Rightarrow> pydict list \<Rightarrow> time \<Rightarrow> tracker \<Rightarrow> error + tracker" where
  "track_killed_zombies killed_ids previous_zombies t tr =
     (let killed = (case killed_zombies_file tr of None \<Rightarrow> [] | Some k \<Rightarrow> k) in
      case track_loop killed killed_ids t previous_zombies of
        Inl e \<Rightarrow> Inl e
      | Inr killed \<Rightarrow> Inr (tr\<lparr>killed_zombies_file := Some killed\<rparr>))"

text \<open>
  \<open>save_current_zombies\<close>. The two set comprehensions are the only places that can raise
  before the files are written; \<open>_track_killed_zombies\<close> indexes the same previous
  records again.
\<close>

definition save_current_zombies :: "time \<Rightarrow> pydict list \<Rightarrow> tracker \<Rightarrow> error + (report \<times> tracker)" where
  "save_current_zombies now zombies tr =
     (let current_time = now;
          previous_zombies = load_current_zombies tr in
      case id_set previous_zombies of
        Inl e \<Rightarrow> Inl e
      | Inr previous_zombie_ids \<Rightarrow>
     (case id_set zombies of
        Inl e \<Rightarrow> Inl e
      | Inr current_zombie_ids \<Rightarrow>
     (let new_zombies = set_difference current_zombie_ids previous_zombie_ids;
          persisting_zombies = set_intersection current_zombie_ids previous_zombie_ids;
          killed_zombies = set_difference previous_zombie_ids current_zombie_ids;
          stats = \<lparr>st_total_zombies = length zombies,
                   st_new_zombies = length new_zombies,
                   st_persisting_zombies = length persisting_zombies,
                   st_killed_zombies = length killed_zombies\<rparr>;
          zombie_data = \<lparr>sn_timestamp = current_time, sn_zombies = zombies,
                         sn_zombie_ids = current_zombie_ids, sn_stats = stats\<rparr>;
          tr = tr\<lparr>current_zombies_file := Some zombie_data\<rparr>;
          tr = update_zombie_history zombies current_time tr;
          result = \<lparr>rp_new_zombies = new_zombies,
                    rp_persisting_zombies = persisting_zombies,
                    rp_killed_zombies = killed_zombies,
                    rp_stats = stats\<rparr>
      in if killed_zombies \<noteq> [] then
           (case track_killed_zombies killed_zombies previous_zombies current_time tr of
              Inl e \<Rightarrow> Inl e
            | Inr tr \<Rightarrow> Inr (result, tr))
         else Inr (result, tr))))"


text \<open>
  \<open>cleanup_old_data\<close>: the cutoff is computed first; a history file that cannot be read
  ends the call at once, and so does a killed registry that cannot be read, after the
  history has been rewritten.
\<close>

definition cleanup_old_data :: "time \<Rightarrow> int \<Rightarrow> tracker \<Rightarrow> error + tracker" where
  "cleanup_old_data now days_to_keep tr =
     (case timedelta_days days_to_keep of
        Inl e \<Rightarrow> Inl e
      | Inr delta \<Rightarrow>
     (case datetime_sub now delta of
        Inl e \<Rightarrow> Inl e
      | Inr cutoff_time \<Rightarrow>
     (case zombie_history_file tr of
        None \<Rightarrow> Inr tr
      | Some history \<Rightarrow>
          (let filtered_history = filter (\<lambda>entry. he_timestamp entry \<ge> cutoff_time) history;
               tr = tr\<lparr>zombie_history_file := Some filtered_history\<rparr>
           in case killed_zombies_file tr of
                None \<Rightarrow> Inr tr
              | Some killed \<Rightarrow>
                  (let filtered_killed = filter (\<lambda>entry. ke_killed_at entry \<ge> cutoff_time) killed
                   in Inr (tr\<lparr>killed_zombies_file := Some filtered_killed\<rparr>))))))"

subsection \<open>Records with an identifier, and the empty data directory\<close>

text \<open>
  \<open>z.get("dynatrace_host_id")\<close>, which is \<open>z["dynatrace_host_id"]\<close> when the key is there; the
  identifiers of a list of records; and the records the set comprehensions of
  \<open>save_current_zombies\<close> accept: the identifier is present and hashable.
\<close>

definition id_of :: "pydict \<Rightarrow> pyval" where
  "id_of z = dict_get z ''dynatrace_host_id'' PNone"

definition ids_of :: "pydict list \<Rightarrow> pyval set" where
  "ids_of zs = set (map id_of zs)"

definition has_id :: "pydict \<Rightarrow> bool" where
  "has_id z = (case map_of z ''dynatrace_host_id'' of None \<Rightarrow> False | Some v \<Rightarrow> hashable v)"

definition fresh_tracker :: tracker where
  "fresh_tracker =
     \<lparr>current_zombies_file = None, zombie_history_file = None, killed_zombies_file = None\<rparr>"

subsection \<open>The records of \<open>tests/test_tracking.py\<close>\<close>

text \<open>
  The two detection rounds of \<open>test_zombie_tracking_lifecycle\<close>, and the data directory
  after the first round has been saved at time 10.
\<close>

definition zombies_round1 :: "pydict list" where
  "zombies_round1 =
     [[(''dynatrace_host_id'', PStr ''HOST-1''), (''hostname'', PStr ''hostname1''),
       (''criterion_type'', PStr ''T1''), (''criterion_alias'', PStr ''CPU Performance Decline''),
       (''is_zombie'', PBool True)],
      [(''dynatrace_host_id'', PStr ''HOST-2''), (''hostname'', PStr ''hostname2''),
       (''criterion_type'', PStr ''T2''), (''criterion_alias'', PStr ''Network and CPU Decline''),
       (''is_zombie'', PBool True)]]"


definition report_round1 :: report where
  "report_round1 =
     \<lparr>rp_new_zombies = [PStr ''HOST-1'', PStr ''HOST-2''],
      rp_persisting_zombies = [],
      rp_killed_zombies = [],
      rp_stats = \<lparr>st_total_zombies = 2, st_new_zombies = 2,
                   st_persisting_zombies = 0, st_killed_zombies = 0\<rparr>\<rparr>"

definition tracker_round1 :: tracker where
  "tracker_round1 =
     \<lparr>current_zombies_file = Some
        \<lparr>sn_timestamp = 10, sn_zombies = zombies_round1,
          sn_zombie_ids = [PStr ''HOST-1'', PStr ''HOST-2''],
          sn_stats = \<lparr>st_total_zombies = 2, st_new_zombies = 2,
                       st_persisting_zombies = 0, st_killed_zombies = 0\<rparr>\<rparr>,
      zombie_history_file = Some
        [\<lparr>he_timestamp = 10, he_zombie_count = 2, he_zombies = zombies_round1\<rparr>],
      killed_zombies_file = None\<rparr>"

text \<open>
  A data directory whose history file is missing or does not decode, and whose killed
  registry holds one entry, killed at \<open>2025-01-01T00:00:00\<close>; and the clock at
  \<open>2026-11-03T12:00:00\<close>.
\<close>

definition killed_2025 :: killed_entry where
  "killed_2025 =
     \<lparr>ke_dynatrace_host_id = PStr ''HOST-1'',
      ke_hostname = PStr ''hostname1'',
      ke_criterion_type = PStr ''T1'',
      ke_criterion_alias = PStr ''CPU Performance Decline'',
      ke_killed_at = 63871286400000000,
      ke_last_detection = [(''dynatrace_host_id'', PStr ''HOST-1''), (''hostname'', PStr ''hostname1'')]\<rparr>"

definition tracker_no_history :: tracker where
  "tracker_no_history =
     \<lparr>current_zombies_file = None, zombie_history_file = None,
      killed_zombies_file = Some [killed_2025]\<rparr>"

definition clock_2026 :: time where
  "clock_2026 = 63929304000000000"

section \<open>The processor (\<open>core/processor.py\<close>)\<close>

text \<open>
  One pass of the loop of \<open>process_host_data\<close>. \<open>classify_host\<close> returns a tuple, so the
  \<open>else\<close> branch of the \<open>isinstance\<close> test is never taken.
\<close>

definition enrich_host :: "(pyval \<Rightarrow> error + int) \<Rightarrow> (string \<times> int) list \<Rightarrow> pydict \<Rightarrow> error + pydict" where
  "enrich_host to_int states_config host =
     (case classify_host to_int host of
        Inl e \<Rightarrow> Inl e
      | Inr (criterion_type, criterion_alias, description) \<Rightarrow>
          (let criterion_state = dict_get states_config criterion_type 1;
               (criterion_type, criterion_alias, description, is_zombie) =
                  (if criterion_state = 0
                   then (''0'', ''No Zombie Detected'', ''Sin criterios de zombie activos'', False)
                   else (criterion_type, criterion_alias, description, criterion_type \<noteq> ''0''))
           in Inr (dict_update host
                [(''dynatrace_host_id'', dict_get host ''dynatrace_host_id'' PNone),
                 (''hostname'', dict_get host ''hostname'' PNone),
                 (''criterion_type'', PStr criterion_type),
                 (''criterion_alias'', PStr criterion_alias),
                 (''criterion_description'', PStr description),
                 (''criterion_state'', PInt criterion_state),
                 (''is_zombie'', PBool is_zombie)])))"

fun enrich_hosts :: "(pyval \<Rightarrow> error + int) \<Rightarrow> (string \<times> int) list \<Rightarrow> pydict list \<Rightarrow> error + pydict list" where
  "enrich_hosts to_int states_config [] = Inr []"
| "enrich_hosts to_int states_config (host # rest) =
     (case enrich_host to_int states_config host of
        Inl e \<Rightarrow> Inl e
      | Inr enriched_host \<Rightarrow>
          (case enrich_hosts to_int states_config rest of
             Inl e \<Rightarrow> Inl e
           | Inr enriched_rest \<Rightarrow> Inr (enriched_host # enriched_rest)))"

text \<open>The report as the dictionary stored under \<open>_tracking_info\<close>.\<close>

definition report_value :: "report \<Rightarrow> pyval" where
  "report_value r =
     PDict [(''new_zombies'', PList (rp_new_zombies r)),
            (''persisting_zombies'', PList (rp_persisting_zombies r)),
            (''killed_zombies'', PList (rp_killed_zombies r)),
            (''stats'', PDict [(''total_zombies'', PInt (int (st_total_zombies (rp_stats r)))),
                               (''new_zombies'', PInt (int (st_new_zombies (rp_stats r)))),
                               (''persisting_zombies'', PInt (int (st_persisting_zombies (rp_stats r)))),
                               (''killed_zombies'', PInt (int (st_killed_zombies (rp_stats r))))])]"

text \<open>
  \<open>process_host_data\<close> on the tracker state \<open>tr\<close> of the data directory. The Kafka step
  only reads the enriched records and the report and catches its own exceptions; it is
  a sink outside the model.
\<close>

definition process_host_data ::
  "(pyval \<Rightarrow> error + int) \<Rightarrow> time \<Rightarrow> pydict list \<Rightarrow> (string \<times> int) list \<Rightarrow> bool \<Rightarrow> tracker
     \<Rightarrow> error + (pydict list \<times> tracker)" where
  "process_host_data to_int now host_data states_config enable_tracking tr =
     (case enrich_hosts to_int states_config host_data of
        Inl e \<Rightarrow> Inl e
      | Inr enriched_hosts \<Rightarrow>
          (let zombies_only =
                 filter (\<lambda>host. py_truthy (dict_get host ''is_zombie'' (PBool False))) enriched_hosts
           in case (if enable_tracking \<and> zombies_only \<noteq> []
                    then map_sum id (\<lambda>(info, tr). (Some info, tr)) (save_current_zombies now zombies_only tr)
                    else Inr (None, tr)) of
                Inl e \<Rightarrow> Inl e
              | Inr (tracking_info, tr) \<Rightarrow>
                  (case (tracking_info, enriched_hosts) of
                     (Some info, first # others) \<Rightarrow>
                        Inr (AList.update ''_tracking_info'' (report_value info) first # others, tr)
                   | _ \<Rightarrow> Inr (enriched_hosts, tr))))"

section \<open>The codec is a bijection\<close>

lemma all_subsets_sorted_distinct: "\<forall>S \<in> set all_subsets. sorted S \<and> distinct S"
  by code_simp

lemma subset_in_all_subsets:
  assumes "S \<subseteq> {0, 1, 2, 3, 4}"
  shows "sorted_list_of_set S \<in> set all_subsets"
proof -
  have "S \<in> Pow (set [0, 1, 2, 3, 4])" using assms by simp
  then have "S \<in> set ` set (subseqs [0, 1, 2, 3, 4])" by (simp only: subseqs_powset)
  then obtain ys where ys: "ys \<in> set all_subsets" "S = set ys"
    unfolding all_subsets_def by blast
  then have "sorted ys" "distinct ys" using all_subsets_sorted_distinct by blast+
  then have "sorted_list_of_set (set ys) = ys"
    by (rule sorted_list_of_set.idem_if_sorted_distinct)
  with ys show ?thesis by simp
qed

lemma codes_on_all_subsets:
  "\<forall>S \<in> set all_subsets. code_for_active S = Inr (canonical_code S)"
  by code_simp

lemma decode_on_all_subsets:
  "\<forall>S \<in> set all_subsets. decode (canonical_code S) = Some (map (\<lambda>i. CRITERIA_KEYS ! i) S)"
  by code_simp

lemma codes_distinct: "distinct (map code_for_active all_subsets)"
  by code_simp

lemma canonical_listings:
  "canonical 2 = [[0, 1], [0, 2], [0, 3], [0, 4], [1, 2], [1, 3], [1, 4], [2, 3], [2, 4], [3, 4]]"
  "canonical 3 = [[0, 1, 2], [0, 1, 3], [0, 1, 4], [0, 2, 3], [0, 2, 4],
                  [0, 3, 4], [1, 2, 3], [1, 2, 4], [1, 3, 4], [2, 3, 4]]"
  by code_simp+

lemma decode_keys:
  "length get_criteria_combinations = 32"
  "set (map fst get_criteria_combinations) = set (map canonical_code all_subsets)"
  by code_simp+

lemma encode_inj: "inj_on encode (Pow {0, 1, 2, 3, 4})"
proof (rule inj_onI)
  fix S T :: "nat set"
  assume S: "S \<in> Pow {0, 1, 2, 3, 4}" and T: "T \<in> Pow {0, 1, 2, 3, 4}"
    and eq: "encode S = encode T"
  have sub: "S \<subseteq> {0, 1, 2, 3, 4}" "T \<subseteq> {0, 1, 2, 3, 4}"
    using S T by (simp_all only: Pow_iff)
  have fin: "finite S" "finite T"
    using sub by (simp_all add: finite_subset [of _ "{0, 1, 2, 3, 4}"])
  have mem: "sorted_list_of_set S \<in> set all_subsets" "sorted_list_of_set T \<in> set all_subsets"
    by (rule subset_in_all_subsets [OF sub(1)], rule subset_in_all_subsets [OF sub(2)])
  have "inj_on code_for_active (set all_subsets)"
    using codes_distinct by (simp add: distinct_map)
  with mem eq have "sorted_list_of_set S = sorted_list_of_set T"
    unfolding encode_def by (auto dest: inj_onD)
  then have "set (sorted_list_of_set S) = set (sorted_list_of_set T)" by simp
  with fin show "S = T" by simp
qed

text \<open>
  Claim C1. The codec is a bijection between the 32 subsets of \<open>{0,..,4}\<close> and the 32
  codes, with the canonical letters: for every subset \<open>S\<close>, encoding its ascending index
  list gives the canonical code (\<open>0\<close>, \<open>5\<close>, size and letter of the single index, of
  the missing index, or of the position in the lexicographic listing of sizes 2 and 3,
  which are the listings \<open>{0,1}=A .. {3,4}=J\<close> and \<open>(0,1,2)=A .. (2,3,4)=J\<close>); encoding is
  injective; and \<open>get_criteria_combinations\<close> has exactly the 32 codes as keys and maps the
  code of \<open>S\<close> to the criterion field names at the indices of \<open>S\<close>, ascending.
\<close>

theorem codec_bijection:
  "(\<forall>S. S \<subseteq> {0, 1, 2, 3, 4} \<longrightarrow>
      encode S = Inr (canonical_code (sorted_list_of_set S)) \<and>
      decode (canonical_code (sorted_list_of_set S))
        = Some (map (\<lambda>i. CRITERIA_KEYS ! i) (sorted_list_of_set S)))
   \<and> inj_on encode (Pow {0, 1, 2, 3, 4})
   \<and> canonical 2 = [[0, 1], [0, 2], [0, 3], [0, 4], [1, 2], [1, 3], [1, 4], [2, 3], [2, 4], [3, 4]]
   \<and> canonical 3 = [[0, 1, 2], [0, 1, 3], [0, 1, 4], [0, 2, 3], [0, 2, 4],
                     [0, 3, 4], [1, 2, 3], [1, 2, 4], [1, 3, 4], [2, 3, 4]]
   \<and> length get_criteria_combinations = 32
   \<and> set (map fst get_criteria_combinations) = set (map canonical_code all_subsets)"
proof -
  have "encode S = Inr (canonical_code (sorted_list_of_set S)) \<and>
      decode (canonical_code (sorted_list_of_set S))
        = Some (map (\<lambda>i. CRITERIA_KEYS ! i) (sorted_list_of_set S))"
    if "S \<subseteq> {0, 1, 2, 3, 4}" for S
    using subset_in_all_subsets [OF that] codes_on_all_subsets decode_on_all_subsets
    unfolding encode_def by blast
  then show ?thesis
    using encode_inj canonical_listings decode_keys by blast
qed

text \<open>The theorem at the subset \<open>{1, 3}\<close>: network and constant RAM, code \<open>2F\<close>.\<close>

theorem codec_bijection_witness:
  "{1, 3} \<subseteq> {0, 1, 2, 3, 4 :: nat} \<and> encode {1, 3} = Inr ''2F''
   \<and> decode ''2F'' = Some [''Recent_net_traffic_decrease_criterion'', ''Excessively_constant_RAM_criterion'']"
proof -
  have sub: "{1, 3} \<subseteq> {0, 1, 2, 3, 4 :: nat}" by simp
  have c: "canonical_code (sorted_list_of_set {1, 3}) = ''2F''" by code_simp
  have k: "map (\<lambda>i. CRITERIA_KEYS ! i) (sorted_list_of_set {1, 3})
     = [''Recent_net_traffic_decrease_criterion'', ''Excessively_constant_RAM_criterion'']"
    by code_simp
  from codec_bijection sub
  have "encode {1, 3} = Inr (canonical_code (sorted_list_of_set {1, 3})) \<and>
      decode (canonical_code (sorted_list_of_set {1, 3}))
        = Some (map (\<lambda>i. CRITERIA_KEYS ! i) (sorted_list_of_set {1, 3}))"
    by blast
  with sub c k show ?thesis by simp
qed

section \<open>Classification is total\<close>

lemma descriptions_on_all_subsets:
  "\<forall>S \<in> set all_subsets. \<not> isl (description_for_active S)"
  by code_simp

lemma active_step_append:
  "active_step to_int host acc ik
     = acc @ (if to_int (dict_get host (snd ik) (PInt 0)) = Inr 1 then [fst ik] else [])"
  by (cases "to_int (dict_get host (snd ik) (PInt 0))") (simp_all add: active_step_def)

lemma foldl_active_step:
  "foldl (active_step to_int host) acc iks
     = acc @ map fst (filter (\<lambda>ik. to_int (dict_get host (snd ik) (PInt 0)) = Inr 1) iks)"
proof (induction iks arbitrary: acc)
  case Nil
  then show ?case by simp
next
  case (Cons ik iks)
  have "foldl (active_step to_int host) acc (ik # iks)
          = foldl (active_step to_int host) (active_step to_int host acc ik) iks"
    by simp
  also have "\<dots> = active_step to_int host acc ik
          @ map fst (filter (\<lambda>ik. to_int (dict_get host (snd ik) (PInt 0)) = Inr 1) iks)"
    by (rule Cons)
  also have "\<dots> = acc
          @ map fst (filter (\<lambda>ik. to_int (dict_get host (snd ik) (PInt 0)) = Inr 1) (ik # iks))"
    by (simp add: active_step_append)
  finally show ?case .
qed

lemma active_indices_filter:
  "active_indices to_int host
     = filter (\<lambda>i. to_int (dict_get host (CRITERIA_KEYS ! i) (PInt 0)) = Inr 1) [0, 1, 2, 3, 4]"
  unfolding active_indices_def foldl_active_step by (simp add: CRITERIA_KEYS_def)

lemma active_indices_in_all_subsets: "active_indices to_int host \<in> set all_subsets"
  unfolding active_indices_filter all_subsets_def set_subseqs_eq by simp

lemma classify_host_returns:
  "\<exists>code description.
     classify_host to_int host = Inr (code, alias_for_code code, description)
     \<and> code_for_active (active_indices to_int host) = Inr code"
proof -
  let ?a = "active_indices to_int host"
  have c: "code_for_active ?a = Inr (canonical_code ?a)"
    using codes_on_all_subsets active_indices_in_all_subsets by blast
  have "\<not> isl (description_for_active ?a)"
    using descriptions_on_all_subsets active_indices_in_all_subsets by blast
  then obtain d where d: "description_for_active ?a = Inr d"
    by (cases "description_for_active ?a") simp_all
  show ?thesis by (simp add: classify_host_def Let_def c d)
qed

text \<open>
  Claim C7. \<open>classify_host\<close> never raises, whatever the five criterion fields hold and
  whatever \<open>int()\<close> does on them: it always returns a triple of code, alias and
  description, the code being that of the active indices. With \<open>int()\<close> the identity on
  integers, an index is active if and only if it is one of the five, the field is
  present and its value converts to exactly 1: a missing field and a conversion that
  raises both count as inactive.
\<close>

theorem classify_host_total:
  "(\<exists>code description.
      classify_host to_int host = Inr (code, alias_for_code code, description)
      \<and> code_for_active (active_indices to_int host) = Inr code)
   \<and> sorted (active_indices to_int host) \<and> distinct (active_indices to_int host)
   \<and> ((\<forall>n. to_int (PInt n) = Inr n) \<longrightarrow>
        (\<forall>i. i \<in> set (active_indices to_int host) \<longleftrightarrow>
           i < 5 \<and> (\<exists>v. map_of host (CRITERIA_KEYS ! i) = Some v \<and> to_int v = Inr 1)))"
proof -
  have iff: "i \<in> set (active_indices to_int host) \<longleftrightarrow>
           i < 5 \<and> (\<exists>v. map_of host (CRITERIA_KEYS ! i) = Some v \<and> to_int v = Inr 1)"
    if int: "\<forall>n. to_int (PInt n) = Inr n" for i
  proof -
    have "to_int (dict_get host k (PInt 0)) = Inr 1
            \<longleftrightarrow> (\<exists>v. map_of host k = Some v \<and> to_int v = Inr 1)" for k
      using int by (cases "map_of host k") (simp_all add: dict_get_def)
    moreover have "i \<in> set [0, 1, 2, 3, 4] \<longleftrightarrow> i < 5" by auto
    ultimately show ?thesis unfolding active_indices_filter set_filter by blast
  qed
  show ?thesis
    using classify_host_returns [of to_int host] all_subsets_sorted_distinct
      active_indices_in_all_subsets [of to_int host] iff
    by blast
qed

text \<open>
  The theorem on a record whose network field is the string \<open>yes\<close> (the conversion raises),
  whose RAM field is 1 and whose other fields are missing.
\<close>

theorem classify_host_total_witness:
  "py_int (PInt 7) = Inr 7
   \<and> 3 \<in> set (active_indices py_int
        [(''Recent_net_traffic_decrease_criterion'', PStr ''yes''),
         (''Excessively_constant_RAM_criterion'', PInt 1)])
   \<and> 1 \<notin> set (active_indices py_int
        [(''Recent_net_traffic_decrease_criterion'', PStr ''yes''),
         (''Excessively_constant_RAM_criterion'', PInt 1)])
   \<and> 2 \<notin> set (active_indices py_int
        [(''Recent_net_traffic_decrease_criterion'', PStr ''yes''),
         (''Excessively_constant_RAM_criterion'', PInt 1)])"
proof -
  let ?h = "[(''Recent_net_traffic_decrease_criterion'', PStr ''yes''),
         (''Excessively_constant_RAM_criterion'', PInt 1)]"
  have int: "\<forall>n. py_int (PInt n) = Inr n" by simp
  with classify_host_total [of py_int ?h]
  have iff: "\<And>i. i \<in> set (active_indices py_int ?h) \<longleftrightarrow>
           i < 5 \<and> (\<exists>v. map_of ?h (CRITERIA_KEYS ! i) = Some v \<and> py_int v = Inr 1)"
    by blast
  have k: "CRITERIA_KEYS ! 3 = ''Excessively_constant_RAM_criterion''"
    "CRITERIA_KEYS ! 1 = ''Recent_net_traffic_decrease_criterion''"
    "CRITERIA_KEYS ! 2 = ''Sustained_Low_CPU_criterion''"
    by code_simp+
  have p: "parse_int ''yes'' = None" by code_simp
  have "3 \<in> set (active_indices py_int ?h)" unfolding iff k by simp
  moreover have "1 \<notin> set (active_indices py_int ?h)" unfolding iff k by (simp add: p)
  moreover have "2 \<notin> set (active_indices py_int ?h)" unfolding iff k by simp
  ultimately show ?thesis by simp
qed

section \<open>The alias table\<close>

lemma all_codes_length: "length all_codes = 32" by code_simp

lemma all_codes_distinct: "distinct all_codes" by code_simp

lemma aliases_distinct: "distinct (map alias_for_code all_codes)" by code_simp

lemma aliases_proper:
  "\<forall>code \<in> set all_codes. alias_for_code code \<noteq> []
      \<and> map_of ALIAS_BY_CODE code = Some (alias_for_code code)
      \<and> (code \<noteq> ''0'' \<longrightarrow> alias_for_code code \<noteq> code)"
  by code_simp

text \<open>
  Claim C9. The alias table gives each of the 32 classification codes an alias of its
  own entry (the fallback to the code is never used); the 32 aliases are pairwise
  distinct and non-empty, and for every code other than \<open>0\<close> the alias differs from the
  code.
\<close>

theorem alias_table:
  "length all_codes = 32 \<and> distinct all_codes
   \<and> distinct (map alias_for_code all_codes)
   \<and> (\<forall>code \<in> set all_codes. alias_for_code code \<noteq> []
        \<and> map_of ALIAS_BY_CODE code = Some (alias_for_code code)
        \<and> (code \<noteq> ''0'' \<longrightarrow> alias_for_code code \<noteq> code))"
  using all_codes_length all_codes_distinct aliases_distinct aliases_proper by blast

text \<open>The theorem at the code \<open>3H\<close>.\<close>

theorem alias_table_witness:
  "''3H'' \<in> set all_codes \<and> ''3H'' \<noteq> ''0'' \<and> alias_for_code ''3H'' \<noteq> []
   \<and> alias_for_code ''3H'' \<noteq> ''3H'' \<and> map_of ALIAS_BY_CODE ''3H'' = Some (alias_for_code ''3H'')"
proof -
  have m: "''3H'' \<in> set all_codes" by code_simp
  have n: "''3H'' \<noteq> ''0''" by simp
  from alias_table m n show ?thesis by blast
qed

section \<open>Enrichment and the policy override\<close>

lemma enrich_host_fields:
  assumes "classify_host to_int host = Inr (code, alias, description)"
  shows "\<exists>e. enrich_host to_int states_config host = Inr e \<and>
     map_of e = (map_of host)
       (''dynatrace_host_id'' \<mapsto> dict_get host ''dynatrace_host_id'' PNone,
        ''hostname'' \<mapsto> dict_get host ''hostname'' PNone,
        ''criterion_type'' \<mapsto> PStr (if dict_get states_config code 1 = 0 then ''0'' else code),
        ''criterion_alias'' \<mapsto>
           PStr (if dict_get states_config code 1 = 0 then ''No Zombie Detected'' else alias),
        ''criterion_description'' \<mapsto>
           PStr (if dict_get states_config code 1 = 0
                 then ''Sin criterios de zombie activos'' else description),
        ''criterion_state'' \<mapsto> PInt (dict_get states_config code 1),
        ''is_zombie'' \<mapsto> PBool (dict_get states_config code 1 \<noteq> 0 \<and> code \<noteq> ''0''))"
  by (cases "dict_get states_config code 1 = 0")
     (simp_all add: enrich_host_def assms Let_def dict_update_def update_conv')

lemma enrich_host_total: "\<exists>e. enrich_host to_int states_config host = Inr e"
  using classify_host_returns [of to_int host] enrich_host_fields by blast

lemma enrich_hosts_nth:
  "enrich_hosts to_int states_config hosts = Inr es \<Longrightarrow>
     length es = length hosts
     \<and> (\<forall>i < length hosts. enrich_host to_int states_config (hosts ! i) = Inr (es ! i))"
proof (induction hosts arbitrary: es)
  case Nil
  then show ?case by simp
next
  case (Cons host hosts)
  from Cons.prems obtain e es' where e: "enrich_host to_int states_config host = Inr e"
    and es': "enrich_hosts to_int states_config hosts = Inr es'" and es: "es = e # es'"
    by (auto split: sum.splits)
  from Cons.IH [OF es'] e es show ?case
    by (auto simp: nth_Cons split: nat.splits)
qed

lemma enrich_hosts_total: "\<exists>es. enrich_hosts to_int states_config hosts = Inr es"
proof (induction hosts)
  case Nil
  then show ?case by simp
next
  case (Cons host hosts)
  then show ?case using enrich_host_total [of to_int states_config host] by auto
qed

lemma process_host_data_fields:
  assumes "process_host_data to_int now host_data states_config enable_tracking tr = Inr (out, tr')"
  shows "\<exists>es. enrich_hosts to_int states_config host_data = Inr es \<and> length out = length es
     \<and> (\<forall>i k. i < length es \<and> k \<noteq> ''_tracking_info'' \<longrightarrow> map_of (out ! i) k = map_of (es ! i) k)"
proof -
  obtain es where es: "enrich_hosts to_int states_config host_data = Inr es"
    using enrich_hosts_total by blast
  have "out = es \<or> (\<exists>v first others. es = first # others
            \<and> out = AList.update ''_tracking_info'' v first # others)"
    using assms unfolding process_host_data_def es
    by (auto simp: Let_def split: sum.splits option.splits list.splits if_splits prod.splits)
  then have "length out = length es
     \<and> (\<forall>i k. i < length es \<and> k \<noteq> ''_tracking_info'' \<longrightarrow> map_of (out ! i) k = map_of (es ! i) k)"
    by (auto simp: update_conv' nth_Cons split: nat.splits)
  with es show ?thesis by blast
qed

lemma process_host_data_record:
  assumes run: "process_host_data to_int now host_data states_config enable_tracking tr = Inr (out, tr')"
    and i: "i < length host_data"
    and cls: "classify_host to_int (host_data ! i) = Inr (code, alias, description)"
  shows "map_of (out ! i) ''criterion_type''
           = Some (PStr (if dict_get states_config code 1 = 0 then ''0'' else code))"
    and "map_of (out ! i) ''criterion_alias''
           = Some (PStr (if dict_get states_config code 1 = 0 then ''No Zombie Detected'' else alias))"
    and "map_of (out ! i) ''criterion_description''
           = Some (PStr (if dict_get states_config code 1 = 0
                         then ''Sin criterios de zombie activos'' else description))"
    and "map_of (out ! i) ''criterion_state'' = Some (PInt (dict_get states_config code 1))"
    and "map_of (out ! i) ''is_zombie''
           = Some (PBool (dict_get states_config code 1 \<noteq> 0 \<and> code \<noteq> ''0''))"
proof -
  obtain es where es: "enrich_hosts to_int states_config host_data = Inr es"
    and out: "\<And>k. k \<noteq> ''_tracking_info'' \<Longrightarrow> i < length es \<Longrightarrow> map_of (out ! i) k = map_of (es ! i) k"
    using process_host_data_fields [OF run] by blast
  from enrich_hosts_nth [OF es] i have len: "i < length es"
    and "enrich_host to_int states_config (host_data ! i) = Inr (es ! i)"
    by simp_all
  with enrich_host_fields [OF cls, of states_config]
  have m: "map_of (es ! i) = (map_of (host_data ! i))
       (''dynatrace_host_id'' \<mapsto> dict_get (host_data ! i) ''dynatrace_host_id'' PNone,
        ''hostname'' \<mapsto> dict_get (host_data ! i) ''hostname'' PNone,
        ''criterion_type'' \<mapsto> PStr (if dict_get states_config code 1 = 0 then ''0'' else code),
        ''criterion_alias'' \<mapsto>
           PStr (if dict_get states_config code 1 = 0 then ''No Zombie Detected'' else alias),
        ''criterion_description'' \<mapsto>
           PStr (if dict_get states_config code 1 = 0
                 then ''Sin criterios de zombie activos'' else description),
        ''criterion_state'' \<mapsto> PInt (dict_get states_config code 1),
        ''is_zombie'' \<mapsto> PBool (dict_get states_config code 1 \<noteq> 0 \<and> code \<noteq> ''0''))"
    by auto
  show "map_of (out ! i) ''criterion_type''
           = Some (PStr (if dict_get states_config code 1 = 0 then ''0'' else code))"
    using out [of "''criterion_type''"] len by (simp add: m)
  show "map_of (out ! i) ''criterion_alias''
           = Some (PStr (if dict_get states_config code 1 = 0 then ''No Zombie Detected'' else alias))"
    using out [of "''criterion_alias''"] len by (simp add: m)
  show "map_of (out ! i) ''criterion_description''
           = Some (PStr (if dict_get states_config code 1 = 0
                         then ''Sin criterios de zombie activos'' else description))"
    using out [of "''criterion_description''"] len by (simp add: m)
  show "map_of (out ! i) ''criterion_state'' = Some (PInt (dict_get states_config code 1))"
    using out [of "''criterion_state''"] len by (simp add: m)
  show "map_of (out ! i) ''is_zombie''
           = Some (PBool (dict_get states_config code 1 \<noteq> 0 \<and> code \<noteq> ''0''))"
    using out [of "''is_zombie''"] len by (simp add: m)
qed

text \<open>
  Claim C3. For every host record and every states map: if the map gives 0 to the code
  \<open>classify_host\<close> produces for the record, the enriched record of \<open>process_host_data\<close> has
  \<open>criterion_type\<close> \<open>0\<close>, alias \<open>No Zombie Detected\<close>, the fixed description and \<open>is_zombie\<close>
  false, whatever criteria were active; if the map gives 1, or has no entry for the
  code, the raw classification stands and \<open>is_zombie\<close> is \<open>code \<noteq> "0"\<close>.
\<close>

theorem policy_override:
  assumes "process_host_data to_int now host_data states_config enable_tracking tr
             = Inr (enriched_hosts, tr')"
    and "i < length host_data"
    and "classify_host to_int (host_data ! i) = Inr (code, alias, description)"
  shows "(map_of states_config code = Some 0 \<longrightarrow>
            map_of (enriched_hosts ! i) ''criterion_type'' = Some (PStr ''0'')
          \<and> map_of (enriched_hosts ! i) ''criterion_alias'' = Some (PStr ''No Zombie Detected'')
          \<and> map_of (enriched_hosts ! i) ''criterion_description''
               = Some (PStr ''Sin criterios de zombie activos'')
          \<and> map_of (enriched_hosts ! i) ''is_zombie'' = Some (PBool False))
       \<and> (map_of states_config code = Some 1 \<or> map_of states_config code = None \<longrightarrow>
            map_of (enriched_hosts ! i) ''criterion_type'' = Some (PStr code)
          \<and> map_of (enriched_hosts ! i) ''criterion_alias'' = Some (PStr alias)
          \<and> map_of (enriched_hosts ! i) ''criterion_description'' = Some (PStr description)
          \<and> map_of (enriched_hosts ! i) ''is_zombie'' = Some (PBool (code \<noteq> ''0'')))"
proof -
  note r = process_host_data_record [OF assms]
  have "dict_get states_config code 1 = 0" if "map_of states_config code = Some 0"
    using that by (simp add: dict_get_def)
  moreover have "dict_get states_config code 1 = 1"
    if "map_of states_config code = Some 1 \<or> map_of states_config code = None"
    using that by (auto simp: dict_get_def)
  ultimately show ?thesis by (auto simp: r)
qed

text \<open>
  The theorem on two records under the states map \<open>{"1C": 0}\<close>: the first is classified
  \<open>1C\<close> and overridden, the second is classified \<open>1A\<close>, absent from the map, and stands.
\<close>

theorem policy_override_witness:
  "map_of [(''1C'', 0 :: int)] ''1C'' = Some 0 \<and> map_of [(''1C'', 0 :: int)] ''1A'' = None
   \<and> process_host_data py_int 0
        [[(''dynatrace_host_id'', PStr ''HOST-1''), (''Sustained_Low_CPU_criterion'', PInt 1)],
         [(''dynatrace_host_id'', PStr ''HOST-2''), (''Recent_CPU_decrease_criterion'', PInt 1)]]
        [(''1C'', 0)] False fresh_tracker
      = Inr ([[(''dynatrace_host_id'', PStr ''HOST-1''),
               (''Sustained_Low_CPU_criterion'', PInt 1), (''hostname'', PNone),
               (''criterion_type'', PStr ''0''),
               (''criterion_alias'', PStr ''No Zombie Detected''),
               (''criterion_description'', PStr ''Sin criterios de zombie activos''),
               (''criterion_state'', PInt 0), (''is_zombie'', PBool False)],
              [(''dynatrace_host_id'', PStr ''HOST-2''),
               (''Recent_CPU_decrease_criterion'', PInt 1), (''hostname'', PNone),
               (''criterion_type'', PStr ''1A''),
               (''criterion_alias'', PStr ''Zombie''),
               (''criterion_description'', PStr ''Detectada una bajada repentina en el uso de CPU''),
               (''criterion_state'', PInt 1), (''is_zombie'', PBool True)]],
             fresh_tracker)"
proof -
  let ?hosts = "[[(''dynatrace_host_id'', PStr ''HOST-1''), (''Sustained_Low_CPU_criterion'', PInt 1)],
         [(''dynatrace_host_id'', PStr ''HOST-2''), (''Recent_CPU_decrease_criterion'', PInt 1)]]"
  let ?states = "[(''1C'', 0 :: int)]"
  let ?run = "process_host_data py_int 0 ?hosts ?states False fresh_tracker"
  have ok: "\<not> isl ?run" by code_simp
  then have run: "?run = Inr (fst (projr ?run), snd (projr ?run))"
    by (cases ?run) simp_all
  have c0: "classify_host py_int (?hosts ! 0)
      = Inr (''1C'', ''Crawler'', ''El uso de CPU se mantiene demasiado bajo durante un tiempo prolongado'')"
    by code_simp
  have c1: "classify_host py_int (?hosts ! 1)
      = Inr (''1A'', ''Zombie'', ''Detectada una bajada repentina en el uso de CPU'')"
    by code_simp
  have s0: "map_of ?states ''1C'' = Some 0" and s1: "map_of ?states ''1A'' = None" by simp_all
  have "map_of (fst (projr ?run) ! 0) ''is_zombie'' = Some (PBool False)"
    using policy_override [OF run _ c0] s0 by simp
  moreover have "map_of (fst (projr ?run) ! 1) ''is_zombie'' = Some (PBool True)"
    using policy_override [OF run _ c1] s1 by simp
  moreover have "?run = Inr ([[(''dynatrace_host_id'', PStr ''HOST-1''),
               (''Sustained_Low_CPU_criterion'', PInt 1), (''hostname'', PNone),
               (''criterion_type'', PStr ''0''),
               (''criterion_alias'', PStr ''No Zombie Detected''),
               (''criterion_description'', PStr ''Sin criterios de zombie activos''),
               (''criterion_state'', PInt 0), (''is_zombie'', PBool False)],
              [(''dynatrace_host_id'', PStr ''HOST-2''),
               (''Recent_CPU_decrease_criterion'', PInt 1), (''hostname'', PNone),
               (''criterion_type'', PStr ''1A''),
               (''criterion_alias'', PStr ''Zombie''),
               (''criterion_description'', PStr ''Detectada una bajada repentina en el uso de CPU''),
               (''criterion_state'', PInt 1), (''is_zombie'', PBool True)]],
             fresh_tracker)"
    by code_simp
  ultimately show ?thesis using s0 s1 by simp
qed

text \<open>
  Claim C6, as amended. When a code is absent from the states map, \<open>0\<close> included, the
  lookup default is 1: \<open>criterion_state\<close> is 1 and the raw classification stands, with
  \<open>is_zombie\<close> being \<open>code \<noteq> "0"\<close>. A host classified \<open>0\<close> is therefore not a zombie because
  of its code, not because of a policy override.
\<close>

theorem absent_code_defaults_active:
  assumes "process_host_data to_int now host_data states_config enable_tracking tr
             = Inr (enriched_hosts, tr')"
    and "i < length host_data"
    and "classify_host to_int (host_data ! i) = Inr (code, alias, description)"
    and "map_of states_config code = None"
  shows "map_of (enriched_hosts ! i) ''criterion_state'' = Some (PInt 1)
       \<and> map_of (enriched_hosts ! i) ''criterion_type'' = Some (PStr code)
       \<and> map_of (enriched_hosts ! i) ''criterion_alias'' = Some (PStr alias)
       \<and> map_of (enriched_hosts ! i) ''criterion_description'' = Some (PStr description)
       \<and> map_of (enriched_hosts ! i) ''is_zombie'' = Some (PBool (code \<noteq> ''0''))"
proof -
  have "dict_get states_config code 1 = 1"
    using assms(4) by (simp add: dict_get_def)
  then show ?thesis
    by (simp add: process_host_data_record [OF assms(1-3)])
qed

text \<open>The theorem on a record with no active criterion and the empty states map.\<close>

theorem absent_code_defaults_active_witness:
  "map_of ([] :: (string \<times> int) list) ''0'' = None
   \<and> classify_host py_int [(''dynatrace_host_id'', PStr ''HOST-1''), (''hostname'', PStr ''web01'')]
       = Inr (''0'', ''No Zombie Detected'', ''Sin criterios de zombie activos'')
   \<and> process_host_data py_int 0
        [[(''dynatrace_host_id'', PStr ''HOST-1''), (''hostname'', PStr ''web01'')]] [] False fresh_tracker
      = Inr ([[(''dynatrace_host_id'', PStr ''HOST-1''), (''hostname'', PStr ''web01''),
               (''criterion_type'', PStr ''0''),
               (''criterion_alias'', PStr ''No Zombie Detected''),
               (''criterion_description'', PStr ''Sin criterios de zombie activos''),
               (''criterion_state'', PInt 1), (''is_zombie'', PBool False)]], fresh_tracker)
   \<and> map_of ([[(''dynatrace_host_id'', PStr ''HOST-1''), (''hostname'', PStr ''web01''),
               (''criterion_type'', PStr ''0''),
               (''criterion_alias'', PStr ''No Zombie Detected''),
               (''criterion_description'', PStr ''Sin criterios de zombie activos''),
               (''criterion_state'', PInt 1), (''is_zombie'', PBool False)]] ! 0) ''is_zombie''
      = Some (PBool (''0'' \<noteq> ''0''))"
proof -
  let ?hosts = "[[(''dynatrace_host_id'', PStr ''HOST-1''), (''hostname'', PStr ''web01'')]]"
  let ?out = "[[(''dynatrace_host_id'', PStr ''HOST-1''), (''hostname'', PStr ''web01''),
               (''criterion_type'', PStr ''0''),
               (''criterion_alias'', PStr ''No Zombie Detected''),
               (''criterion_description'', PStr ''Sin criterios de zombie activos''),
               (''criterion_state'', PInt 1), (''is_zombie'', PBool False)]]"
  have absent: "map_of ([] :: (string \<times> int) list) ''0'' = None" by simp
  have run: "process_host_data py_int 0 ?hosts [] False fresh_tracker = Inr (?out, fresh_tracker)"
    by code_simp
  have len: "0 < length ?hosts" by simp
  have cls: "classify_host py_int (?hosts ! 0)
      = Inr (''0'', ''No Zombie Detected'', ''Sin criterios de zombie activos'')"
    by code_simp
  from absent_code_defaults_active [OF run len cls absent]
  have "map_of (?out ! 0) ''is_zombie'' = Some (PBool (''0'' \<noteq> ''0''))" by blast
  with absent run cls show ?thesis by simp
qed

text \<open>
  Claim C6 as stated fails: with \<open>0\<close> absent from the states map, a host classified \<open>0\<close>
  is enriched with \<open>criterion_state\<close> 1, not 0.
\<close>

theorem absent_zero_counterexample:
  "map_of ([] :: (string \<times> int) list) ''0'' = None
   \<and> classify_host py_int [(''dynatrace_host_id'', PStr ''HOST-1''), (''hostname'', PStr ''web01'')]
       = Inr (''0'', ''No Zombie Detected'', ''Sin criterios de zombie activos'')
   \<and> enrich_host py_int [] [(''dynatrace_host_id'', PStr ''HOST-1''), (''hostname'', PStr ''web01'')]
       = Inr [(''dynatrace_host_id'', PStr ''HOST-1''), (''hostname'', PStr ''web01''),
              (''criterion_type'', PStr ''0''),
              (''criterion_alias'', PStr ''No Zombie Detected''),
              (''criterion_description'', PStr ''Sin criterios de zombie activos''),
              (''criterion_state'', PInt 1), (''is_zombie'', PBool False)]
   \<and> dict_get (projr (enrich_host py_int []
          [(''dynatrace_host_id'', PStr ''HOST-1''), (''hostname'', PStr ''web01'')]))
        ''criterion_state'' PNone \<noteq> PInt 0"
  by code_simp

section \<open>No zombie, no tracking\<close>

lemma enrich_host_passthrough:
  assumes "enrich_host to_int states_config host = Inr e"
  shows "(\<exists>b. map_of e ''is_zombie'' = Some (PBool b))
       \<and> map_of e ''_tracking_info'' = map_of host ''_tracking_info''"
proof -
  obtain code description
    where "classify_host to_int host = Inr (code, alias_for_code code, description)"
    using classify_host_returns [of to_int host] by blast
  from enrich_host_fields [OF this, of states_config] assms show ?thesis by auto
qed

text \<open>
  Claim C10. With tracking enabled, when no enriched record has \<open>is_zombie\<close> true, the
  tracker is not called: \<open>process_host_data\<close> returns the enriched records with the three
  files unchanged, and every returned record has under \<open>_tracking_info\<close> what its input
  record had there (nothing is attached).
\<close>

theorem no_zombies_no_tracking:
  assumes "enrich_hosts to_int states_config host_data = Inr enriched_hosts"
    and "\<forall>host \<in> set enriched_hosts. map_of host ''is_zombie'' \<noteq> Some (PBool True)"
  shows "process_host_data to_int now host_data states_config True tr = Inr (enriched_hosts, tr)
       \<and> length enriched_hosts = length host_data
       \<and> (\<forall>i < length host_data.
             map_of (enriched_hosts ! i) ''_tracking_info'' = map_of (host_data ! i) ''_tracking_info'')"
proof -
  note nth = enrich_hosts_nth [OF assms(1)]
  have "\<not> py_truthy (dict_get e ''is_zombie'' (PBool False))" if "e \<in> set enriched_hosts" for e
  proof -
    from that obtain i where "i < length host_data" "e = enriched_hosts ! i"
      using nth by (auto simp: in_set_conv_nth)
    with nth have "enrich_host to_int states_config (host_data ! i) = Inr e" by simp
    from enrich_host_passthrough [OF this] obtain b where "map_of e ''is_zombie'' = Some (PBool b)"
      by blast
    with assms(2) that show ?thesis by (cases b) (auto simp: dict_get_def)
  qed
  then have "filter (\<lambda>host. py_truthy (dict_get host ''is_zombie'' (PBool False))) enriched_hosts = []"
    by (simp add: filter_empty_conv)
  then have "process_host_data to_int now host_data states_config True tr = Inr (enriched_hosts, tr)"
    by (simp add: process_host_data_def assms(1))
  moreover have "map_of (enriched_hosts ! i) ''_tracking_info'' = map_of (host_data ! i) ''_tracking_info''"
    if "i < length host_data" for i
    using nth that enrich_host_passthrough by blast
  ultimately show ?thesis using nth by blast
qed

text \<open>
  The theorem on a data directory whose snapshot holds \<open>HOST-1\<close>, and a run in which
  \<open>HOST-1\<close> is disabled by the policy: the snapshot stays and nothing is marked killed.
\<close>

theorem no_zombies_no_tracking_witness:
  "enrich_hosts py_int [(''1A'', 0)]
       [[(''dynatrace_host_id'', PStr ''HOST-1''), (''Recent_CPU_decrease_criterion'', PInt 1)]]
     = Inr [[(''dynatrace_host_id'', PStr ''HOST-1''), (''Recent_CPU_decrease_criterion'', PInt 1),
             (''hostname'', PNone), (''criterion_type'', PStr ''0''),
             (''criterion_alias'', PStr ''No Zombie Detected''),
             (''criterion_description'', PStr ''Sin criterios de zombie activos''),
             (''criterion_state'', PInt 0), (''is_zombie'', PBool False)]]
   \<and> process_host_data py_int 5
       [[(''dynatrace_host_id'', PStr ''HOST-1''), (''Recent_CPU_decrease_criterion'', PInt 1)]]
       [(''1A'', 0)] True
       \<lparr>current_zombies_file = Some
          \<lparr>sn_timestamp = 1, sn_zombies = [[(''dynatrace_host_id'', PStr ''HOST-1'')]],
            sn_zombie_ids = [PStr ''HOST-1''],
            sn_stats = \<lparr>st_total_zombies = 1, st_new_zombies = 1,
                         st_persisting_zombies = 0, st_killed_zombies = 0\<rparr>\<rparr>,
        zombie_history_file = Some
          [\<lparr>he_timestamp = 1, he_zombie_count = 1,
             he_zombies = [[(''dynatrace_host_id'', PStr ''HOST-1'')]]\<rparr>],
        killed_zombies_file = None\<rparr>
     = Inr ([[(''dynatrace_host_id'', PStr ''HOST-1''), (''Recent_CPU_decrease_criterion'', PInt 1),
              (''hostname'', PNone), (''criterion_type'', PStr ''0''),
              (''criterion_alias'', PStr ''No Zombie Detected''),
              (''criterion_description'', PStr ''Sin criterios de zombie activos''),
              (''criterion_state'', PInt 0), (''is_zombie'', PBool False)]],
       \<lparr>current_zombies_file = Some
          \<lparr>sn_timestamp = 1, sn_zombies = [[(''dynatrace_host_id'', PStr ''HOST-1'')]],
            sn_zombie_ids = [PStr ''HOST-1''],
            sn_stats = \<lparr>st_total_zombies = 1, st_new_zombies = 1,
                         st_persisting_zombies = 0, st_killed_zombies = 0\<rparr>\<rparr>,
        zombie_history_file = Some
          [\<lparr>he_timestamp = 1, he_zombie_count = 1,
             he_zombies = [[(''dynatrace_host_id'', PStr ''HOST-1'')]]\<rparr>],
        killed_zombies_file = None\<rparr>)"
proof -
  let ?hosts = "[[(''dynatrace_host_id'', PStr ''HOST-1''), (''Recent_CPU_decrease_criterion'', PInt 1)]]"
  let ?out = "[[(''dynatrace_host_id'', PStr ''HOST-1''), (''Recent_CPU_decrease_criterion'', PInt 1),
             (''hostname'', PNone), (''criterion_type'', PStr ''0''),
             (''criterion_alias'', PStr ''No Zombie Detected''),
             (''criterion_description'', PStr ''Sin criterios de zombie activos''),
             (''criterion_state'', PInt 0), (''is_zombie'', PBool False)]]"
  have e: "enrich_hosts py_int [(''1A'', 0)] ?hosts = Inr ?out" by code_simp
  have z: "\<forall>host \<in> set ?out. map_of host ''is_zombie'' \<noteq> Some (PBool True)" by simp
  from no_zombies_no_tracking [OF e z] e show ?thesis by blast
qed

section \<open>Recording a snapshot\<close>

lemma has_id_item:
  "has_id z \<longleftrightarrow> (\<exists>v. dict_item z ''dynatrace_host_id'' = Inr v \<and> hashable v)"
  by (cases "map_of z ''dynatrace_host_id''") (simp_all add: has_id_def dict_item_def)

lemma dict_item_id_of: "dict_item z ''dynatrace_host_id'' = Inr v \<Longrightarrow> id_of z = v"
  by (cases "map_of z ''dynatrace_host_id''") (simp_all add: dict_item_def id_of_def dict_get_def)

lemma id_set_from_Inr:
  "id_set_from s zs = Inr r \<longleftrightarrow> (\<forall>z \<in> set zs. has_id z) \<and> r = foldl set_add s (map id_of zs)"
proof (induction zs arbitrary: s)
  case Nil
  then show ?case by auto
next
  case (Cons z zs)
  show ?case
  proof (cases "dict_item z ''dynatrace_host_id''")
    case (Inl e)
    then show ?thesis by (simp add: has_id_item)
  next
    case (Inr v)
    then show ?thesis
      using Cons.IH [of "set_add s v"] dict_item_id_of [OF Inr]
      by (simp add: has_id_item)
  qed
qed

lemma foldl_set_add:
  "set (foldl set_add s xs) = set s \<union> set xs"
  "distinct s \<Longrightarrow> distinct (foldl set_add s xs)"
  by (induction xs arbitrary: s) (auto simp: set_add_def)

lemma id_set_Inr:
  "id_set zs = Inr r \<Longrightarrow> (\<forall>z \<in> set zs. has_id z) \<and> set r = ids_of zs \<and> distinct r"
  by (simp add: id_set_def id_set_from_Inr foldl_set_add ids_of_def)


lemma track_loop_Inr:
  "\<forall>z \<in> set prev. has_id z \<Longrightarrow>
     track_loop killed killed_ids t prev
       = Inr (killed @ map (\<lambda>z. killed_entry_of t z (id_of z))
                         (filter (\<lambda>z. id_of z \<in> set killed_ids) prev))"
proof (induction prev arbitrary: killed)
  case Nil
  then show ?case by simp
next
  case (Cons z prev)
  from Cons.prems obtain v where v: "dict_item z ''dynatrace_host_id'' = Inr v"
    by (auto simp: has_id_item)
  with Cons show ?case
    using dict_item_id_of [OF v] by simp
qed

lemma save_current_zombies_run:
  assumes P: "id_set (load_current_zombies tr) = Inr P" and C: "id_set zombies = Inr C"
  shows "\<exists>result tr'. save_current_zombies now zombies tr = Inr (result, tr')
     \<and> rp_new_zombies result = set_difference C P
     \<and> rp_persisting_zombies result = set_intersection C P
     \<and> rp_killed_zombies result = set_difference P C
     \<and> rp_stats result = \<lparr>st_total_zombies = length zombies,
                            st_new_zombies = length (set_difference C P),
                            st_persisting_zombies = length (set_intersection C P),
                            st_killed_zombies = length (set_difference P C)\<rparr>
     \<and> current_zombies_file tr'
          = Some \<lparr>sn_timestamp = now, sn_zombies = zombies, sn_zombie_ids = C,
                   sn_stats = rp_stats result\<rparr>
     \<and> zombie_history_file tr' = zombie_history_file (update_zombie_history zombies now tr)
     \<and> killed_zombies_file tr'
          = (if set_difference P C = [] then killed_zombies_file tr
             else Some ((case killed_zombies_file tr of None \<Rightarrow> [] | Some k \<Rightarrow> k)
                        @ map (\<lambda>z. killed_entry_of now z (id_of z))
                            (filter (\<lambda>z. id_of z \<in> set (set_difference P C))
                               (load_current_zombies tr))))"
proof -
  have wf: "\<forall>z \<in> set (load_current_zombies tr). has_id z"
    using id_set_Inr [OF P] by blast
  show ?thesis
    by (simp add: save_current_zombies_def P C Let_def track_killed_zombies_def
        track_loop_Inr [OF wf] update_zombie_history_def)
qed

lemma save_current_zombies_Inr:
  assumes "save_current_zombies now zombies tr = Inr (result, tr')"
  obtains P C where "id_set (load_current_zombies tr) = Inr P" "id_set zombies = Inr C"
  using assms unfolding save_current_zombies_def
  by (auto simp: Let_def split: sum.splits)



section \<open>The killed registry\<close>






section \<open>The history log\<close>

text \<open>
  Claim C8. \<open>_update_zombie_history\<close> leaves in the history file the last 1000 entries of
  the old history followed by the entry of this run: at most 1000 entries, the entry
  just appended being the last, the oldest ones dropped; and the history file after
  \<open>save_current_zombies\<close> is the one \<open>_update_zombie_history\<close> wrote.
\<close>

theorem history_cap:
  "zombie_history_file (update_zombie_history zombies t tr)
     = Some (drop (length (case zombie_history_file tr of None \<Rightarrow> [] | Some h \<Rightarrow> h) + 1 - 1000)
               ((case zombie_history_file tr of None \<Rightarrow> [] | Some h \<Rightarrow> h)
                @ [\<lparr>he_timestamp = t, he_zombie_count = length zombies, he_zombies = zombies\<rparr>]))
   \<and> length (the (zombie_history_file (update_zombie_history zombies t tr)))
       = min 1000 (length (case zombie_history_file tr of None \<Rightarrow> [] | Some h \<Rightarrow> h) + 1)
   \<and> last (the (zombie_history_file (update_zombie_history zombies t tr)))
       = \<lparr>he_timestamp = t, he_zombie_count = length zombies, he_zombies = zombies\<rparr>
   \<and> (save_current_zombies t zombies tr = Inr (result, tr') \<longrightarrow>
        zombie_history_file tr' = zombie_history_file (update_zombie_history zombies t tr))"
proof -
  have "zombie_history_file tr' = zombie_history_file (update_zombie_history zombies t tr)"
    if run: "save_current_zombies t zombies tr = Inr (result, tr')"
  proof -
    from run obtain P C where P: "id_set (load_current_zombies tr) = Inr P"
      and C: "id_set zombies = Inr C"
      by (rule save_current_zombies_Inr)
    from save_current_zombies_run [OF P C, of t] run show ?thesis by auto
  qed
  then show ?thesis
    by (auto simp: update_zombie_history_def Let_def min_def)
qed

section \<open>The rounds of the tracking test\<close>

lemma round1_saved:
  "save_current_zombies 10 zombies_round1 fresh_tracker = Inr (report_round1, tracker_round1)"
  by code_simp



text \<open>
  Claim C8 on the first round, and on a history of 1000 entries: the oldest is dropped.
\<close>

theorem history_cap_witness:
  "save_current_zombies 10 zombies_round1 fresh_tracker = Inr (report_round1, tracker_round1)
   \<and> zombie_history_file tracker_round1
       = Some [\<lparr>he_timestamp = 10, he_zombie_count = 2, he_zombies = zombies_round1\<rparr>]
   \<and> zombie_history_file (update_zombie_history [] 7
         (fresh_tracker\<lparr>zombie_history_file :=
            Some (replicate 1000 \<lparr>he_timestamp = 1, he_zombie_count = 0, he_zombies = []\<rparr>)\<rparr>))
       = Some (replicate 999 \<lparr>he_timestamp = 1, he_zombie_count = 0, he_zombies = []\<rparr>
               @ [\<lparr>he_timestamp = 7, he_zombie_count = 0, he_zombies = []\<rparr>])"
proof -
  from history_cap [of zombies_round1 10 fresh_tracker report_round1 tracker_round1] round1_saved
  have "zombie_history_file tracker_round1
          = zombie_history_file (update_zombie_history zombies_round1 10 fresh_tracker)"
    by blast
  also have "\<dots> = Some [\<lparr>he_timestamp = 10, he_zombie_count = 2, he_zombies = zombies_round1\<rparr>]"
    by (simp add: update_zombie_history_def fresh_tracker_def zombies_round1_def)
  finally have a: "zombie_history_file tracker_round1
       = Some [\<lparr>he_timestamp = 10, he_zombie_count = 2, he_zombies = zombies_round1\<rparr>]" .
  let ?tr = "fresh_tracker\<lparr>zombie_history_file :=
            Some (replicate 1000 \<lparr>he_timestamp = 1, he_zombie_count = 0, he_zombies = []\<rparr>)\<rparr>"
  from history_cap [of "[]" 7 ?tr]
  have "zombie_history_file (update_zombie_history [] 7 ?tr)
     = Some (drop (length (case zombie_history_file ?tr of None \<Rightarrow> [] | Some h \<Rightarrow> h) + 1 - 1000)
               ((case zombie_history_file ?tr of None \<Rightarrow> [] | Some h \<Rightarrow> h)
                @ [\<lparr>he_timestamp = 7, he_zombie_count = length ([] :: pydict list), he_zombies = []\<rparr>]))"
    by blast
  then have b: "zombie_history_file (update_zombie_history [] 7 ?tr)
       = Some (replicate 999 \<lparr>he_timestamp = 1, he_zombie_count = 0, he_zombies = []\<rparr>
               @ [\<lparr>he_timestamp = 7, he_zombie_count = 0, he_zombies = []\<rparr>])"
    by simp
  from a b round1_saved show ?thesis by simp
qed

section \<open>Retention\<close>

lemma cleanup_old_data_readable:
  assumes "timedelta_days days_to_keep = Inr delta" and "datetime_sub now delta = Inr cutoff_time"
    and "zombie_history_file tr = Some history" and "killed_zombies_file tr = Some killed"
  shows "cleanup_old_data now days_to_keep tr
       = Inr (tr\<lparr>zombie_history_file := Some (filter (\<lambda>entry. he_timestamp entry \<ge> cutoff_time) history),
                killed_zombies_file := Some (filter (\<lambda>entry. ke_killed_at entry \<ge> cutoff_time) killed)\<rparr>)"
  by (simp add: cleanup_old_data_def assms Let_def)

lemma cleanup_old_data_unreadable_history:
  assumes "zombie_history_file tr = None"
  shows "cleanup_old_data now days_to_keep tr = Inr tr
       \<or> cleanup_old_data now days_to_keep tr = Inl OverflowError"
  by (auto simp: cleanup_old_data_def assms timedelta_days_def datetime_sub_def split: sum.splits)

text \<open>
  Claim C5 at a data directory whose history file cannot be read: \<open>cleanup_old_data\<close>
  with 30 days returns at the first \<open>except\<close> branch and leaves in the killed registry an
  entry killed more than 30 days before the clock. With a readable (empty) history the
  same entry is removed.
\<close>

theorem cleanup_skips_killed_registry:
  "zombie_history_file tracker_no_history = None
   \<and> killed_zombies_file tracker_no_history = Some [killed_2025]
   \<and> timedelta_days 30 = Inr 2592000000000
   \<and> datetime_sub clock_2026 2592000000000 = Inr 63926712000000000
   \<and> ke_killed_at killed_2025 < 63926712000000000
   \<and> cleanup_old_data clock_2026 30 tracker_no_history = Inr tracker_no_history
   \<and> cleanup_old_data clock_2026 30 (tracker_no_history\<lparr>zombie_history_file := Some []\<rparr>)
       = Inr (tracker_no_history\<lparr>zombie_history_file := Some [], killed_zombies_file := Some []\<rparr>)"
  by code_simp

end
